theory Spec2Isabelle
  imports Main "HOL-Library.Signed_Division"
begin

section \<open>Platform model\<close>

text \<open>
  The program is TypeScript running in a browser. Three platform facilities appear in the
  code under study and are modelled once, here.

  \<^item> \<^verbatim>\<open>Date.now()\<close> is an integer number of milliseconds; it is the parameter \<open>now\<close> of
    every operation that reads the clock. One synchronous call runs to completion, and the
    readings it takes are modelled as one reading.
  \<^item> Strings are \<open>string\<close>; \<^verbatim>\<open>.length\<close> is \<open>length\<close>.
  \<^item> Numbers that the code handles are timestamps, durations and counters: integers far
    below \<open>2^53\<close>, where the floating-point operations of the code (\<^verbatim>\<open>/\<close> followed by
    \<^verbatim>\<open>Math.floor\<close>, \<^verbatim>\<open>%\<close>, comparisons) agree with the integer operations used here.
\<close>

subsection \<open>Rendering a number in a template string\<close>

definition digit_char :: "nat \<Rightarrow> char" where
  "digit_char d = ''0123456789'' ! d"

fun show_nat :: "nat \<Rightarrow> string" where
  "show_nat n = (if n < 10 then [digit_char n] else show_nat (n div 10) @ [digit_char (n mod 10)])"

declare show_nat.simps [simp del]

definition show_int :: "int \<Rightarrow> string" where
  "show_int i = (if i < 0 then CHR ''-'' # show_nat (nat (- i)) else show_nat (nat i))"

section \<open>Session lifecycle manager\<close>

subsection \<open>Formatting the time remaining\<close>

text \<open>
  \<^verbatim>\<open>Math.floor(a / b)\<close> is \<open>a div b\<close> (rounding down); the remainder operator \<^verbatim>\<open>%\<close> of
  JavaScript takes the sign of the dividend and is \<open>smod\<close>.
\<close>

definition formatTimeRemaining :: "int \<Rightarrow> string" where
  "formatTimeRemaining milliseconds =
     (let hours = milliseconds div (1000 * 60 * 60);
          minutes = (milliseconds smod (1000 * 60 * 60)) div (1000 * 60)
      in if hours > 0 then show_int hours @ ''h '' @ show_int minutes @ ''m''
         else if minutes > 0 then show_int minutes @ ''m''
         else ''<1m'')"

subsection \<open>Local storage\<close>

text \<open>
  \<^verbatim>\<open>localStorage\<close> maps the four fixed keys of the application to strings. A stored string
  is modelled by what \<^verbatim>\<open>JSON.parse\<close> does with it: \<open>Json v\<close> is the text
  \<^verbatim>\<open>JSON.stringify(v)\<close> of a value of the type the key is declared to hold, and
  \<open>Text s\<close> is a string \<open>s\<close> on which \<^verbatim>\<open>JSON.parse\<close> throws a SyntaxError (the empty
  string is one of them). A key that is not present is \<open>None\<close>. \<open>writable\<close> tells whether
  \<^verbatim>\<open>setItem\<close> succeeds; when it is false \<^verbatim>\<open>setItem\<close> throws (quota exceeded).
\<close>

datatype 'a item = Text string | Json 'a

definition JSON_parse :: "'a item \<Rightarrow> 'a option" where
  "JSON_parse str = (case str of Text s \<Rightarrow> None | Json v \<Rightarrow> Some v)"

text \<open>The test \<^verbatim>\<open>!str\<close> on a string: true exactly for the empty string.\<close>

definition falsy :: "'a item \<Rightarrow> bool" where
  "falsy str = (case str of Text s \<Rightarrow> s = [] | Json v \<Rightarrow> False)"

record stored_user =
  user_id :: string
  user_email :: string
  user_name :: string
  user_password :: string
  user_createdAt :: string
  user_updatedAt :: string

record user_profile =
  profile_id :: string
  profile_email :: string
  profile_name :: string
  profile_createdAt :: string
  profile_updatedAt :: string

record session_data =
  userId :: string
  email :: string
  name :: string
  loginTime :: int
  lastActivity :: int
  expiresAt :: int
  sessionId :: string
  deviceInfo :: string

record work_in_progress =
  textContent :: string
  selectedLanguage :: string
  voiceSettings :: string
  timestamp :: int

record storage =
  users_item :: "stored_user list item option"
  current_user_item :: "user_profile item option"
  session_item :: "session_data item option"
  work_backup_item :: "work_in_progress item option"
  writable :: bool

subsection \<open>Profile store: the two readers\<close>

definition getAllUsers :: "storage \<Rightarrow> stored_user list \<times> storage" where
  "getAllUsers st =
     (case users_item st of
        None \<Rightarrow> ([], st)
      | Some users \<Rightarrow>
          if falsy users then ([], st)
          else (case JSON_parse users of
                  None \<Rightarrow> ([], st)
                | Some v \<Rightarrow> (v, st)))"

definition getCurrentUser :: "storage \<Rightarrow> user_profile option \<times> storage" where
  "getCurrentUser st =
     (case current_user_item st of
        None \<Rightarrow> (None, st)
      | Some currentUser \<Rightarrow>
          if falsy currentUser then (None, st)
          else (case JSON_parse currentUser of
                  None \<Rightarrow> (None, st)
                | Some v \<Rightarrow> (Some v, st)))"

subsection \<open>Session manager state\<close>

text \<open>
  A timer armed by \<^verbatim>\<open>setTimeout(f, delay)\<close> at time \<open>now\<close> is recorded by the time
  \<open>now + delay\<close> at which it is due. The two callbacks that the user interface registers
  are the caller's code: the model records whether one is registered and, in
  \<open>notifications\<close>, each call the manager makes to it.
\<close>

datatype notification = Warning bool int | Expired

record manager =
  store :: storage
  lastActivityTime :: int
  activityTimer :: "int option"
  warningTimer :: "int option"
  expiryTimer :: "int option"
  sessionWarningCallback :: bool
  sessionExpiredCallback :: bool
  notifications :: "notification list"

definition SESSION_DURATION :: int where
  "SESSION_DURATION = 24 * 60 * 60 * 1000"

definition WARNING_TIME :: int where
  "WARNING_TIME = 5 * 60 * 1000"

definition ACTIVITY_THRESHOLD :: int where
  "ACTIVITY_THRESHOLD = 30 * 1000"

definition clearTimers :: "manager \<Rightarrow> manager" where
  "clearTimers m = m\<lparr>activityTimer := None, warningTimer := None, expiryTimer := None\<rparr>"

definition saveSession :: "session_data \<Rightarrow> manager \<Rightarrow> manager" where
  "saveSession sessionData m =
     (if writable (store m)
      then m\<lparr>store := (store m)\<lparr>session_item := Some (Json sessionData)\<rparr>\<rparr>
      else m)"

definition clearSession :: "manager \<Rightarrow> manager" where
  "clearSession m = clearTimers (m\<lparr>store := (store m)\<lparr>session_item := None\<rparr>\<rparr>)"

definition backupWorkInProgress :: "work_in_progress option \<Rightarrow> int \<Rightarrow> manager \<Rightarrow> manager" where
  "backupWorkInProgress workData now m =
     (case workData of
        None \<Rightarrow> m
      | Some w \<Rightarrow>
          if writable (store m)
          then m\<lparr>store := (store m)\<lparr>work_backup_item := Some (Json (w\<lparr>timestamp := now\<rparr>))\<rparr>\<rparr>
          else m)"

text \<open>
  \<^verbatim>\<open>expireSession\<close> calls \<^verbatim>\<open>this.backupWorkInProgress()\<close> with no argument, so no clock
  reading is taken there; the \<open>0\<close> below is never used.
\<close>

definition expireSession :: "manager \<Rightarrow> manager" where
  "expireSession m =
     (let m1 = backupWorkInProgress None 0 m;
          m2 = clearSession m1;
          m3 = clearTimers m2
      in if sessionExpiredCallback m3
         then m3\<lparr>notifications := notifications m3 @ [Expired]\<rparr>
         else m3)"

definition getCurrentSession :: "int \<Rightarrow> manager \<Rightarrow> session_data option \<times> manager" where
  "getCurrentSession now m =
     (case session_item (store m) of
        None \<Rightarrow> (None, m)
      | Some sessionStr \<Rightarrow>
          if falsy sessionStr then (None, m)
          else (case JSON_parse sessionStr of
                  None \<Rightarrow> (None, clearSession m)
                | Some session \<Rightarrow>
                    if now > expiresAt session then (None, expireSession m)
                    else (Some session, m)))"

definition updateSessionActivity :: "int \<Rightarrow> manager \<Rightarrow> manager" where
  "updateSessionActivity now m =
     (case getCurrentSession now m of
        (None, m1) \<Rightarrow> m1
      | (Some session, m1) \<Rightarrow>
          let s1 = session\<lparr>lastActivity := now\<rparr>;
              s2 = (if expiresAt s1 - now < SESSION_DURATION div 2
                    then s1\<lparr>expiresAt := now + SESSION_DURATION\<rparr> else s1)
          in saveSession s2 m1)"

definition handleUserActivity :: "int \<Rightarrow> manager \<Rightarrow> manager" where
  "handleUserActivity now m =
     (if now - lastActivityTime m > ACTIVITY_THRESHOLD
      then updateSessionActivity now (m\<lparr>lastActivityTime := now\<rparr>)
      else m)"

definition showSessionWarning :: "int \<Rightarrow> manager \<Rightarrow> manager" where
  "showSessionWarning now m =
     (case getCurrentSession now m of
        (None, m1) \<Rightarrow> m1
      | (Some session, m1) \<Rightarrow>
          let timeRemaining = max 0 (expiresAt session - now)
          in if sessionWarningCallback m1
             then m1\<lparr>notifications := notifications m1 @ [Warning True timeRemaining]\<rparr>
             else m1)"

definition hideSessionWarning :: "manager \<Rightarrow> manager" where
  "hideSessionWarning m =
     (if sessionWarningCallback m
      then m\<lparr>notifications := notifications m @ [Warning False 0]\<rparr>
      else m)"

definition startSessionTimers :: "int \<Rightarrow> session_data \<Rightarrow> manager \<Rightarrow> manager" where
  "startSessionTimers now session m =
     (let m1 = clearTimers m;
          timeUntilWarning = expiresAt session - now - WARNING_TIME;
          timeUntilExpiry = expiresAt session - now;
          m2 = (if timeUntilWarning > 0 then m1\<lparr>warningTimer := Some (now + timeUntilWarning)\<rparr>
                else if timeUntilExpiry > 0 then showSessionWarning now m1
                else m1)
      in if timeUntilExpiry > 0 then m2\<lparr>expiryTimer := Some (now + timeUntilExpiry)\<rparr>
         else m2)"

definition extendSession :: "int \<Rightarrow> manager \<Rightarrow> bool \<times> manager" where
  "extendSession now m =
     (case getCurrentSession now m of
        (None, m1) \<Rightarrow> (False, m1)
      | (Some session, m1) \<Rightarrow>
          let s1 = session\<lparr>expiresAt := now + SESSION_DURATION, lastActivity := now\<rparr>
          in (True, startSessionTimers now s1 (saveSession s1 m1)))"

text \<open>
  \<^verbatim>\<open>createSession\<close>: the generated session identifier (it holds a random part) and the
  device descriptor read from the browser are parameters.
\<close>

definition createSession ::
  "string \<Rightarrow> string \<Rightarrow> string \<Rightarrow> string \<Rightarrow> string \<Rightarrow> int \<Rightarrow> manager \<Rightarrow> session_data \<times> manager" where
  "createSession uid mail nm sid dev now m =
     (let sessionData = \<lparr>userId = uid, email = mail, name = nm, loginTime = now,
            lastActivity = now, expiresAt = now + SESSION_DURATION, sessionId = sid,
            deviceInfo = dev\<rparr>
      in (sessionData, startSessionTimers now sessionData (saveSession sessionData m)))"

definition restoreWorkInProgress :: "int \<Rightarrow> manager \<Rightarrow> work_in_progress option \<times> manager" where
  "restoreWorkInProgress now m =
     (case work_backup_item (store m) of
        None \<Rightarrow> (None, m)
      | Some backup \<Rightarrow>
          if falsy backup then (None, m)
          else (case JSON_parse backup of
                  None \<Rightarrow> (None, m)
                | Some workData \<Rightarrow>
                    let isRecent = (now - timestamp workData < 24 * 60 * 60 * 1000)
                    in (if isRecent then Some workData else None, m)))"

definition isSessionValid :: "int \<Rightarrow> manager \<Rightarrow> bool \<times> manager" where
  "isSessionValid now m =
     (case getCurrentSession now m of
        (None, m1) \<Rightarrow> (False, m1)
      | (Some session, m1) \<Rightarrow> (now < expiresAt session, m1))"

section \<open>HTTP clients\<close>

subsection \<open>Strings\<close>

text \<open>
  \<^verbatim>\<open>String.prototype.trim\<close> removes white space at both ends. Of the white-space
  characters of JavaScript, those that a \<open>char\<close> can hold are tab, line feed, vertical
  tab, form feed, carriage return, space and no-break space.
\<close>

definition is_space :: "char \<Rightarrow> bool" where
  "is_space c = (of_char c \<in> {9, 10, 11, 12, 13, 32, 160 :: nat})"

definition trim :: "string \<Rightarrow> string" where
  "trim s = rev (dropWhile is_space (rev (dropWhile is_space s)))"

text \<open>\<^verbatim>\<open>s.includes(pat)\<close>: \<open>pat\<close> occurs in \<open>s\<close> as a contiguous run.\<close>

fun str_includes :: "string \<Rightarrow> string \<Rightarrow> bool" where
  "str_includes [] pat = (pat = [])"
| "str_includes (c # cs) pat = (take (length pat) (c # cs) = pat \<or> str_includes cs pat)"

text \<open>\<^verbatim>\<open>a || b\<close> on an optional string: \<open>a\<close> unless it is undefined or empty.\<close>

definition or_else :: "string option \<Rightarrow> string \<Rightarrow> string" where
  "or_else a b = (case a of None \<Rightarrow> b | Some s \<Rightarrow> if s = [] then b else s)"

subsection \<open>The network\<close>

text \<open>
  The remote services are outside the program. What one call of \<^verbatim>\<open>fetch\<close> does is an
  \<open>outcome\<close>: a response with its status and body, or a rejection. A body is either a
  JSON object with the fields the client reads (\<open>Parsed\<close>), or text that is not JSON
  (\<open>Raw\<close>, with the text and the message of the SyntaxError that parsing it raises).
  A rejection with an \<^verbatim>\<open>Error\<close> carries its name and message; the abort that the
  timeout triggers has the name \<^verbatim>\<open>AbortError\<close>.

  A request is scripted by an environment \<open>env\<close>: for the attempt numbered \<open>k\<close>,
  \<open>env k\<close> is the reading of \<^verbatim>\<open>Date.now()\<close> when that attempt checks the rate limit
  (waiting between attempts is the difference of two readings) and the outcome of the
  \<^verbatim>\<open>fetch\<close> of that attempt. What is sent in the request body has no influence on the
  script and is not modelled. The field \<open>fetches\<close> of a client counts the calls of
  \<^verbatim>\<open>fetch\<close> issued so far; it is the only field that the source does not have.
\<close>

datatype 'd body = Raw string string | Parsed 'd

datatype 'd outcome = Http nat "'d body" | Rejected string string | RejectedOther

datatype thrown = JsError string string | NonError

datatype 'd step = Return 'd | Retry | Throw thrown

definition response_ok :: "nat \<Rightarrow> bool" where
  "response_ok status = (200 \<le> status \<and> status \<le> 299)"

record client =
  requestCount :: int
  lastResetTime :: int
  fetches :: nat

definition maxRetries :: nat where
  "maxRetries = 3"

text \<open>
  Both clients carry the same \<^verbatim>\<open>checkRateLimit\<close>; only the constant \<^verbatim>\<open>rateLimit\<close>
  differs. \<^verbatim>\<open>hoursPassed >= 1\<close> with
  \<^verbatim>\<open>hoursPassed = (now - lastResetTime) / (1000 * 60 * 60)\<close> is the comparison below.
\<close>

definition checkRateLimit :: "int \<Rightarrow> int \<Rightarrow> 'a client_scheme \<Rightarrow> bool \<times> 'a client_scheme" where
  "checkRateLimit rateLimit now st =
     (let st1 = (if now - lastResetTime st \<ge> 1000 * 60 * 60
                 then st\<lparr>requestCount := 0, lastResetTime := now\<rparr> else st)
      in (requestCount st1 < rateLimit, st1))"

subsection \<open>Conversation client\<close>

record conversation_properties =
  max_call_duration :: "int option"
  participant_left_timeout :: "int option"
  participant_absent_timeout :: "int option"
  language :: "string option"

record conversation_request =
  replica_id :: string
  conversation_name :: string
  custom_greeting :: string
  conversational_context :: "string option"
  properties :: "conversation_properties option"

record conversation_response =
  cr_success :: bool
  cr_conversation_id :: "string option"
  cr_conversation_url :: "string option"
  cr_status :: "string option"
  cr_error :: "string option"
  cr_expires_at :: "string option"

record conversation_status =
  cs_conversation_id :: string
  cs_status :: "string option"
  cs_conversation_url :: "string option"
  cs_participants :: int
  cs_duration :: int
  cs_error :: "string option"
  cs_expires_at :: "string option"

text \<open>The fields that the client reads from a JSON body of the provider.\<close>

record conversation_data =
  d_conversation_id :: "string option"
  d_conversation_url :: "string option"
  d_status :: "string option"
  d_participants :: "int option"
  d_duration :: "int option"
  d_error :: "string option"
  d_message :: "string option"
  d_detail :: "string option"
  d_expires_at :: "string option"

definition empty_data :: conversation_data where
  "empty_data = \<lparr>d_conversation_id = None, d_conversation_url = None, d_status = None,
     d_participants = None, d_duration = None, d_error = None, d_message = None,
     d_detail = None, d_expires_at = None\<rparr>"

record conversation_usage =
  total_minutes_used :: int
  total_minutes_available :: int
  remaining_minutes :: int
  current_month_usage :: int

record tavus = client +
  conversationUsage :: conversation_usage

definition TavusAPI_rateLimit :: int where
  "TavusAPI_rateLimit = 50"

definition validateConversationRequest :: "conversation_request \<Rightarrow> string option" where
  "validateConversationRequest request =
     (if replica_id request = [] \<or> length (trim (replica_id request)) = 0
        then Some ''Replica ID is required for conversation creation''
      else if conversation_name request = [] \<or> length (trim (conversation_name request)) = 0
        then Some ''Conversation name is required''
      else if custom_greeting request = [] \<or> length (trim (custom_greeting request)) = 0
        then Some ''Custom greeting is required for conversation''
      else if length (custom_greeting request) > 500
        then Some ''Custom greeting exceeds maximum length of 500 characters''
      else if (case conversational_context request of
                 None \<Rightarrow> False
               | Some c \<Rightarrow> c \<noteq> [] \<and> length c > 2000)
        then Some ''Conversational context exceeds maximum length of 2000 characters''
      else None)"

definition tavus_error_message :: "nat \<Rightarrow> conversation_data body \<Rightarrow> string" where
  "tavus_error_message status b =
     (let errorMessage =
            (case b of
               Parsed errorData \<Rightarrow>
                 or_else (d_error errorData) (or_else (d_message errorData)
                   (or_else (d_detail errorData) ''Conversation request failed''))
             | Raw responseBody msg \<Rightarrow>
                 or_else (Some responseBody) ''Conversation request failed'')
      in if status = 401 then ''Invalid API key. Please check your Tavus API key.''
         else if status = 429 then ''Rate limit exceeded. Please try again later.''
         else if status = 400 then ''Invalid request parameters: '' @ errorMessage
         else if status = 402
           then ''Insufficient credits or conversation minutes. Please check your Tavus account.''
         else if status = 404 then ''Replica not found. Please check your replica ID.''
         else if status \<in> {500, 502, 503, 504}
           then ''Tavus service is temporarily unavailable. Please try again later.''
         else errorMessage)"

text \<open>The \<^verbatim>\<open>try\<close> block of \<^verbatim>\<open>makeRequest\<close>, after \<^verbatim>\<open>fetch\<close> has settled.\<close>

definition tavus_try :: "nat \<Rightarrow> conversation_data outcome \<Rightarrow> conversation_data step" where
  "tavus_try attempt out =
     (case out of
        Http status b \<Rightarrow>
          if \<not> response_ok status then
            (if status \<ge> 500 \<and> attempt \<le> maxRetries then Retry
             else Throw (JsError ''Error'' (tavus_error_message status b)))
          else if status = 204 then Return empty_data
          else (case b of
                  Parsed responseData \<Rightarrow> Return responseData
                | Raw txt msg \<Rightarrow> Throw (JsError ''SyntaxError'' msg))
      | Rejected nm msg \<Rightarrow> Throw (JsError nm msg)
      | RejectedOther \<Rightarrow> Throw NonError)"

text \<open>The \<^verbatim>\<open>catch\<close> block of \<^verbatim>\<open>makeRequest\<close>, entered with what the \<^verbatim>\<open>try\<close> block threw.\<close>

definition tavus_catch :: "nat \<Rightarrow> thrown \<Rightarrow> conversation_data step" where
  "tavus_catch attempt e =
     (case e of
        JsError nm msg \<Rightarrow>
          if nm = ''AbortError'' then
            (if attempt \<le> maxRetries then Retry
             else Throw (JsError ''Error'' ''Conversation request timed out. Please try again.''))
          else if str_includes msg ''Failed to fetch'' \<or> str_includes msg ''NetworkError'' then
            (if attempt \<le> maxRetries then Retry
             else Throw (JsError ''Error''
               ''Unable to connect to conversation service. Please check your internet connection.''))
          else Throw e
      | NonError \<Rightarrow> Throw e)"

definition tavus_attempt :: "nat \<Rightarrow> conversation_data outcome \<Rightarrow> conversation_data step" where
  "tavus_attempt attempt out =
     (case tavus_try attempt out of
        Throw e \<Rightarrow> tavus_catch attempt e
      | r \<Rightarrow> r)"

text \<open>
  \<^verbatim>\<open>makeRequest\<close> calls itself for a retry; the attempt number grows and a retry is
  made only while it is at most \<^verbatim>\<open>maxRetries\<close>.
\<close>

function TavusAPI_makeRequest ::
  "(nat \<Rightarrow> int \<times> conversation_data outcome) \<Rightarrow> nat \<Rightarrow> tavus
     \<Rightarrow> (thrown + conversation_data) \<times> tavus" where
  "TavusAPI_makeRequest env attempt st =
     (case checkRateLimit TavusAPI_rateLimit (fst (env attempt)) st of
        (False, st1) \<Rightarrow>
          (Inl (JsError ''Error'' ''Rate limit exceeded. Please try again later.''), st1)
      | (True, st1) \<Rightarrow>
          let st2 = st1\<lparr>requestCount := requestCount st1 + 1, fetches := fetches st1 + 1\<rparr>
          in (case tavus_attempt attempt (snd (env attempt)) of
                Return responseData \<Rightarrow> (Inr responseData, st2)
              | Throw e \<Rightarrow> (Inl e, st2)
              | Retry \<Rightarrow> TavusAPI_makeRequest env (attempt + 1) st2))"
  by pat_completeness auto
termination
  by (relation "measure (\<lambda>(env, attempt, st). maxRetries + 1 - attempt)")
     (auto simp: tavus_attempt_def tavus_try_def tavus_catch_def
           split: outcome.splits body.splits if_splits step.splits thrown.splits)

declare TavusAPI_makeRequest.simps [simp del]

text \<open>\<^verbatim>\<open>n || 0\<close> on an optional number.\<close>

definition or_zero :: "int option \<Rightarrow> int" where
  "or_zero n = (case n of None \<Rightarrow> 0 | Some k \<Rightarrow> k)"

definition getConversationStatus ::
  "(nat \<Rightarrow> int \<times> conversation_data outcome) \<Rightarrow> string \<Rightarrow> tavus
     \<Rightarrow> conversation_status option \<times> tavus" where
  "getConversationStatus env conversationId st =
     (case TavusAPI_makeRequest env 1 st of
        (Inl e, st1) \<Rightarrow> (None, st1)
      | (Inr d, st1) \<Rightarrow>
          (Some \<lparr>cs_conversation_id = conversationId, cs_status = d_status d,
                 cs_conversation_url = d_conversation_url d,
                 cs_participants = or_zero (d_participants d),
                 cs_duration = or_zero (d_duration d),
                 cs_error = d_error d, cs_expires_at = d_expires_at d\<rparr>, st1))"

definition conversation_failed :: "string \<Rightarrow> conversation_response" where
  "conversation_failed err = \<lparr>cr_success = False, cr_conversation_id = None,
     cr_conversation_url = None, cr_status = None, cr_error = Some err, cr_expires_at = None\<rparr>"

definition updateUsageTracking :: "tavus \<Rightarrow> tavus" where
  "updateUsageTracking st =
     st\<lparr>conversationUsage := (conversationUsage st)
          \<lparr>current_month_usage := current_month_usage (conversationUsage st) + 1\<rparr>\<rparr>"

definition createConversation ::
  "(nat \<Rightarrow> int \<times> conversation_data outcome) \<Rightarrow> conversation_request \<Rightarrow> tavus
     \<Rightarrow> conversation_response \<times> tavus" where
  "createConversation env request st =
     (case validateConversationRequest request of
        Some err \<Rightarrow> (conversation_failed err, st)
      | None \<Rightarrow>
          if remaining_minutes (conversationUsage st) \<le> 0
          then (conversation_failed
                  ''No conversation minutes remaining. Please check your Tavus account.'', st)
          else (case TavusAPI_makeRequest env 1 st of
                  (Inl e, st1) \<Rightarrow>
                    (conversation_failed
                       (case e of
                          JsError nm msg \<Rightarrow> msg
                        | NonError \<Rightarrow> ''An unexpected error occurred during conversation creation. Please try again.''),
                     st1)
                | (Inr d, st1) \<Rightarrow>
                    (\<lparr>cr_success = True, cr_conversation_id = d_conversation_id d,
                      cr_conversation_url = d_conversation_url d,
                      cr_status = Some (or_else (d_status d) ''creating''),
                      cr_error = None, cr_expires_at = d_expires_at d\<rparr>,
                     updateUsageTracking st1)))"

subsection \<open>Translation client\<close>

record translation_request =
  req_text :: string
  target_language :: string
  source_language :: "string option"

record translation_response =
  tr_success :: bool
  tr_translated_text :: "string option"
  tr_error :: "string option"
  tr_detected_language :: "string option"

text \<open>
  A language option also carries a flag and a native name for display; no operation
  modelled here reads them.
\<close>

record language_option =
  lang_code :: string
  lang_name :: string

record translation_data =
  t_translated_text :: "string option"
  t_detected_language :: "string option"
  t_error :: "string option"
  t_message :: "string option"

type_synonym lingo = client

definition LingoAPI_rateLimit :: int where
  "LingoAPI_rateLimit = 100"

definition supportedLanguages :: "language_option list" where
  "supportedLanguages =
     [\<lparr>lang_code = ''en'', lang_name = ''English''\<rparr>,
      \<lparr>lang_code = ''es'', lang_name = ''Spanish''\<rparr>,
      \<lparr>lang_code = ''fr'', lang_name = ''French''\<rparr>,
      \<lparr>lang_code = ''de'', lang_name = ''German''\<rparr>,
      \<lparr>lang_code = ''it'', lang_name = ''Italian''\<rparr>,
      \<lparr>lang_code = ''pt'', lang_name = ''Portuguese''\<rparr>,
      \<lparr>lang_code = ''ja'', lang_name = ''Japanese''\<rparr>,
      \<lparr>lang_code = ''ko'', lang_name = ''Korean''\<rparr>,
      \<lparr>lang_code = ''zh'', lang_name = ''Chinese''\<rparr>,
      \<lparr>lang_code = ''ar'', lang_name = ''Arabic''\<rparr>]"

definition getLanguageByCode :: "string \<Rightarrow> language_option option" where
  "getLanguageByCode c = find (\<lambda>lang. lang_code lang = c) supportedLanguages"

definition validateRequest :: "translation_request \<Rightarrow> string option" where
  "validateRequest request =
     (if req_text request = [] \<or> length (trim (req_text request)) = 0
        then Some ''Text content is required for translation''
      else if length (req_text request) > 1000
        then Some ''Text content exceeds maximum length of 1000 characters''
      else if target_language request = []
        then Some ''Target language is required''
      else if getLanguageByCode (target_language request) = None
        then Some ''Unsupported target language''
      else if (case source_language request of
                 None \<Rightarrow> False
               | Some src \<Rightarrow> src \<noteq> [] \<and> getLanguageByCode src = None)
        then Some ''Unsupported source language''
      else None)"

definition translation_failed :: "string \<Rightarrow> translation_response" where
  "translation_failed err = \<lparr>tr_success = False, tr_translated_text = None,
     tr_error = Some err, tr_detected_language = None\<rparr>"

definition lingo_error_message :: "nat \<Rightarrow> translation_data body \<Rightarrow> string" where
  "lingo_error_message status b =
     (let errorMessage =
            (case b of
               Parsed errorData \<Rightarrow>
                 or_else (t_error errorData) (or_else (t_message errorData)
                   ''Translation request failed'')
             | Raw responseBody msg \<Rightarrow>
                 or_else (Some responseBody) ''Translation request failed'')
      in if status = 401 then ''Invalid API key. Please check your Lingo.dev API key.''
         else if status = 429 then ''Rate limit exceeded. Please try again later.''
         else if status = 400 then ''Invalid request parameters: '' @ errorMessage
         else if status \<in> {500, 502, 503, 504}
           then ''Lingo.dev service is temporarily unavailable. Please try again later.''
         else errorMessage)"

definition lingo_try :: "nat \<Rightarrow> translation_data outcome \<Rightarrow> translation_response step" where
  "lingo_try attempt out =
     (case out of
        Http status b \<Rightarrow>
          if \<not> response_ok status then
            (if status \<ge> 500 \<and> attempt \<le> maxRetries then Retry
             else Return (translation_failed (lingo_error_message status b)))
          else (case b of
                  Raw txt msg \<Rightarrow> Throw (JsError ''SyntaxError'' msg)
                | Parsed d \<Rightarrow>
                    if or_else (t_translated_text d) [] = []
                    then Return (translation_failed
                           ''Invalid response format from translation service'')
                    else Return \<lparr>tr_success = True,
                           tr_translated_text = t_translated_text d, tr_error = None,
                           tr_detected_language = t_detected_language d\<rparr>)
      | Rejected nm msg \<Rightarrow> Throw (JsError nm msg)
      | RejectedOther \<Rightarrow> Throw NonError)"

definition lingo_catch :: "nat \<Rightarrow> thrown \<Rightarrow> translation_response step" where
  "lingo_catch attempt e =
     (case e of
        JsError nm msg \<Rightarrow>
          if nm = ''AbortError'' then
            (if attempt \<le> maxRetries then Retry
             else Return (translation_failed
                    ''Translation request timed out. Please try again.''))
          else if str_includes msg ''Failed to fetch'' \<or> str_includes msg ''NetworkError'' then
            (if attempt \<le> maxRetries then Retry
             else Return (translation_failed
                    ''Unable to connect to translation service. Please check your internet connection.''))
          else Return (translation_failed
                 ''An unexpected error occurred during translation. Please try again.'')
      | NonError \<Rightarrow>
          Return (translation_failed
            ''An unexpected error occurred during translation. Please try again.''))"

definition lingo_attempt :: "nat \<Rightarrow> translation_data outcome \<Rightarrow> translation_response step" where
  "lingo_attempt attempt out =
     (case lingo_try attempt out of
        Throw e \<Rightarrow> lingo_catch attempt e
      | r \<Rightarrow> r)"

text \<open>
  In this client the rate-limit check stands before the \<^verbatim>\<open>try\<close> block as well, and its
  error is the only one that leaves \<^verbatim>\<open>makeRequest\<close> as an exception.
\<close>

function LingoAPI_makeRequest ::
  "(nat \<Rightarrow> int \<times> translation_data outcome) \<Rightarrow> nat \<Rightarrow> lingo
     \<Rightarrow> (thrown + translation_response) \<times> lingo" where
  "LingoAPI_makeRequest env attempt st =
     (case checkRateLimit LingoAPI_rateLimit (fst (env attempt)) st of
        (False, st1) \<Rightarrow>
          (Inl (JsError ''Error'' ''Rate limit exceeded. Please try again later.''), st1)
      | (True, st1) \<Rightarrow>
          let st2 = st1\<lparr>requestCount := requestCount st1 + 1, fetches := fetches st1 + 1\<rparr>
          in (case lingo_attempt attempt (snd (env attempt)) of
                Return r \<Rightarrow> (Inr r, st2)
              | Throw e \<Rightarrow> (Inl e, st2)
              | Retry \<Rightarrow> LingoAPI_makeRequest env (attempt + 1) st2))"
  by pat_completeness auto
termination
  by (relation "measure (\<lambda>(env, attempt, st). maxRetries + 1 - attempt)")
     (auto simp: lingo_attempt_def lingo_try_def lingo_catch_def
           split: outcome.splits body.splits if_splits step.splits thrown.splits)

declare LingoAPI_makeRequest.simps [simp del]

definition translateText ::
  "(nat \<Rightarrow> int \<times> translation_data outcome) \<Rightarrow> translation_request \<Rightarrow> lingo
     \<Rightarrow> translation_response \<times> lingo" where
  "translateText env request st =
     (case validateRequest request of
        Some err \<Rightarrow> (translation_failed err, st)
      | None \<Rightarrow>
          if (case source_language request of
                None \<Rightarrow> False
              | Some src \<Rightarrow> src \<noteq> [] \<and> src = target_language request)
          then (\<lparr>tr_success = True, tr_translated_text = Some (req_text request),
                 tr_error = None, tr_detected_language = source_language request\<rparr>, st)
          else (case LingoAPI_makeRequest env 1 st of
                  (Inl e, st1) \<Rightarrow>
                    (translation_failed
                       ''An unexpected error occurred during translation. Please try again.'', st1)
                | (Inr result, st1) \<Rightarrow> (result, st1)))"

section \<open>Example states\<close>

definition empty_storage :: storage where
  "empty_storage = \<lparr>users_item = None, current_user_item = None, session_item = None,
     work_backup_item = None, writable = True\<rparr>"

definition fresh_manager :: manager where
  "fresh_manager = \<lparr>store = empty_storage, lastActivityTime = 1000, activityTimer = None,
     warningTimer = None, expiryTimer = None, sessionWarningCallback = True,
     sessionExpiredCallback = True, notifications = []\<rparr>"

definition example_session :: session_data where
  "example_session = \<lparr>userId = ''user_1'', email = ''a@x.com'', name = ''Ann'',
     loginTime = 1000, lastActivity = 1000, expiresAt = 86401000,
     sessionId = ''session_1000_k3'', deviceInfo = ''Linux - en - Mozilla''\<rparr>"

definition example_work :: work_in_progress where
  "example_work = \<lparr>textContent = ''Hello'', selectedLanguage = ''en'',
     voiceSettings = ''{}'', timestamp = 5000\<rparr>"

text \<open>
  The manager after a login at time 1000 and one backup at time 5000: the session expires
  at \<open>1000 + SESSION_DURATION\<close>, and both timers are armed for it.
\<close>

definition logged_in :: manager where
  "logged_in = \<lparr>store = \<lparr>users_item = None, current_user_item = None,
       session_item = Some (Json example_session),
       work_backup_item = Some (Json example_work), writable = True\<rparr>,
     lastActivityTime = 1000, activityTimer = None,
     warningTimer = Some 86101000, expiryTimer = Some 86401000,
     sessionWarningCallback = True, sessionExpiredCallback = True, notifications = []\<rparr>"

text \<open>
  A stored value that a reader cannot use: the key is missing, or its text is not JSON.
\<close>

definition unreadable :: "'a item option \<Rightarrow> bool" where
  "unreadable v = (case v of None \<Rightarrow> True | Some (Text s) \<Rightarrow> True | Some (Json x) \<Rightarrow> False)"

text \<open>Storage in which the text under each of the four keys is cut off in the middle.\<close>

definition corrupt_storage :: storage where
  "corrupt_storage = \<lparr>users_item = Some (Text ''[{\"id\":''),
     current_user_item = Some (Text ''{\"id\":''),
     session_item = Some (Text ''{\"userId\":''),
     work_backup_item = Some (Text ''{\"textContent\":''), writable = True\<rparr>"

definition corrupt_manager :: manager where
  "corrupt_manager = logged_in\<lparr>store := corrupt_storage\<rparr>"

section \<open>The validation order in the words of the specification\<close>

text \<open>
  The specification lists the rules of a conversation request in a fixed order: replica
  id present, name present, greeting present, greeting of at most 500 characters, context
  of at most 2000 characters; the first rule that fails gives the one message returned.
  A field is present when something other than white space is in it. The list below is
  that order, each rule as the test that it is violated, with its message;
  \<open>first_violation\<close> is the message of the first violated rule.
\<close>

definition blank :: "string \<Rightarrow> bool" where
  "blank s = (trim s = [])"

definition conversation_rules :: "((conversation_request \<Rightarrow> bool) \<times> string) list" where
  "conversation_rules =
     [(\<lambda>r. blank (replica_id r), ''Replica ID is required for conversation creation''),
      (\<lambda>r. blank (conversation_name r), ''Conversation name is required''),
      (\<lambda>r. blank (custom_greeting r), ''Custom greeting is required for conversation''),
      (\<lambda>r. \<not> length (custom_greeting r) \<le> 500,
         ''Custom greeting exceeds maximum length of 500 characters''),
      (\<lambda>r. case conversational_context r of None \<Rightarrow> False | Some c \<Rightarrow> \<not> length c \<le> 2000,
         ''Conversational context exceeds maximum length of 2000 characters'')]"

definition first_violation :: "conversation_request \<Rightarrow> string option" where
  "first_violation r = map_option snd (find (\<lambda>rule. fst rule r) conversation_rules)"

section \<open>Classes of outcomes\<close>




section \<open>Example requests and client states\<close>

definition tavus_start :: tavus where
  "tavus_start = \<lparr>requestCount = 0, lastResetTime = 0, fetches = 0,
     conversationUsage = \<lparr>total_minutes_used = 0, total_minutes_available = 250,
       remaining_minutes = 250, current_month_usage = 0\<rparr>\<rparr>"

definition lingo_start :: lingo where
  "lingo_start = \<lparr>requestCount = 0, lastResetTime = 0, fetches = 0\<rparr>"

text \<open>The provider answers the first attempt with status 500 and the second with a body.\<close>

definition failing_once :: "nat \<Rightarrow> int \<times> conversation_data outcome" where
  "failing_once k =
     (if k = 1 then (1000, Http 500 (Raw [] []))
      else (3000 + int k, Http 200 (Parsed (empty_data\<lparr>d_status := Some ''active''\<rparr>))))"



text \<open>The translation provider is never reached in the examples; it would time out.\<close>

definition lingo_timeout :: "nat \<Rightarrow> int \<times> translation_data outcome" where
  "lingo_timeout k = (1000 * int k, Rejected ''AbortError'' ''The user aborted a request.'')"

definition no_ids_request :: conversation_request where
  "no_ids_request = \<lparr>replica_id = [], conversation_name = ''  '', custom_greeting = ''Hi'',
     conversational_context = None, properties = None\<rparr>"

definition no_name_request :: conversation_request where
  "no_name_request = \<lparr>replica_id = ''r79e1c033f'', conversation_name = [],
     custom_greeting = [], conversational_context = None, properties = None\<rparr>"

definition hello_request :: translation_request where
  "hello_request = \<lparr>req_text = ''Hello'', target_language = ''en'',
     source_language = Some ''en''\<rparr>"

text \<open>
  Clients that have used up their quota in the hour that began at time 0, and providers
  that answer the first attempt at once: inside that hour, and at its end.
\<close>

definition tavus_spent :: tavus where
  "tavus_spent = tavus_start\<lparr>requestCount := 50, fetches := 50\<rparr>"

definition lingo_spent :: lingo where
  "lingo_spent = lingo_start\<lparr>requestCount := 100, fetches := 100\<rparr>"

definition same_hour :: "nat \<Rightarrow> int \<times> conversation_data outcome" where
  "same_hour k = (3599999, Http 200 (Parsed (empty_data\<lparr>d_status := Some ''active''\<rparr>)))"

definition next_hour :: "nat \<Rightarrow> int \<times> conversation_data outcome" where
  "next_hour k = (3600000, Http 200 (Parsed (empty_data\<lparr>d_status := Some ''active''\<rparr>)))"

definition hola :: translation_data where
  "hola = \<lparr>t_translated_text = Some ''Hola'', t_detected_language = Some ''en'',
     t_error = None, t_message = None\<rparr>"

definition lingo_same_hour :: "nat \<Rightarrow> int \<times> translation_data outcome" where
  "lingo_same_hour k = (3599999, Http 200 (Parsed hola))"

definition lingo_next_hour :: "nat \<Rightarrow> int \<times> translation_data outcome" where
  "lingo_next_hour k = (3600000, Http 200 (Parsed hola))"

definition hello_to_spanish :: translation_request where
  "hello_to_spanish = \<lparr>req_text = ''Hello'', target_language = ''es'',
     source_language = Some ''en''\<rparr>"

section \<open>Properties of the time-remaining format\<close>

lemma digit_char_not_minus: "d < 10 \<Longrightarrow> digit_char d \<noteq> CHR ''-''"
proof -
  assume "d < 10"
  then have "d \<in> {0, 1, 2, 3, 4, 5, 6, 7, 8, 9}" by auto
  then show ?thesis by (auto simp: digit_char_def)
qed

lemma show_nat_no_minus: "CHR ''-'' \<notin> set (show_nat n)"
proof (induction n rule: show_nat.induct)
  case (1 n)
  show ?case
  proof (cases "n < 10")
    case True
    then show ?thesis
      using digit_char_not_minus [of n] by (simp add: show_nat.simps [of n])
  next
    case False
    then have "CHR ''-'' \<notin> set (show_nat (n div 10))" using 1 by simp
    moreover have "digit_char (n mod 10) \<noteq> CHR ''-''"
      by (rule digit_char_not_minus) simp
    ultimately show ?thesis using False by (simp add: show_nat.simps [of n])
  qed
qed

lemma show_int_nonneg: "0 \<le> i \<Longrightarrow> show_int i = show_nat (nat i)"
  by (simp add: show_int_def)

lemma smod_of_nonneg: "0 \<le> (a::int) \<Longrightarrow> a smod b = a mod \<bar>b\<bar>"
  by (cases "a = 0") (simp_all add: signed_modulo_int_def)

lemma smod_of_nonpos: "(a::int) \<le> 0 \<Longrightarrow> a smod b \<le> 0"
proof -
  assume "a \<le> 0"
  then have "sgn a \<le> 0" by (simp add: sgn_if)
  moreover have "0 \<le> \<bar>a\<bar> mod \<bar>b\<bar>"
    by (cases "b = 0") simp_all
  ultimately show ?thesis
    unfolding signed_modulo_int_def by (rule mult_nonpos_nonneg)
qed

text \<open>
  Claim C9. \<^verbatim>\<open>formatTimeRemaining\<close> is a function of the millisecond duration alone. A
  duration that is not positive is rendered \<open><1m\<close>. A positive duration is rendered
  \<open>Hh Mm\<close> when it holds at least one whole hour, \<open>Mm\<close> when it holds less than an hour and
  at least one whole minute, and \<open><1m\<close> otherwise. No rendering has a minus sign in it.
\<close>

theorem formatTimeRemaining_spec:
  "(ms \<le> 0 \<longrightarrow> formatTimeRemaining ms = ''<1m'') \<and>
   (0 < ms \<longrightarrow> formatTimeRemaining ms =
      (if 1 \<le> ms div 3600000
         then show_nat (nat (ms div 3600000)) @ ''h '' @
              show_nat (nat (ms mod 3600000 div 60000)) @ ''m''
       else if 1 \<le> ms div 60000 then show_nat (nat (ms div 60000)) @ ''m''
       else ''<1m'')) \<and>
   CHR ''-'' \<notin> set (formatTimeRemaining ms)"
proof (intro conjI impI)
  assume neg: "ms \<le> 0"
  have h: "ms div 3600000 \<le> 0" using neg by (simp add: div_nonpos_pos_le0)
  have "ms smod 3600000 \<le> 0" using neg by (rule smod_of_nonpos)
  then have m: "(ms smod 3600000) div 60000 \<le> 0" by (simp add: div_nonpos_pos_le0)
  show "formatTimeRemaining ms = ''<1m''"
    using h m by (simp add: formatTimeRemaining_def Let_def)
next
  assume pos: "0 < ms"
  have sm: "ms smod 3600000 = ms mod 3600000" using pos by (simp add: smod_of_nonneg)
  have h0: "0 \<le> ms div 3600000" using pos by simp
  have m0: "0 \<le> ms mod 3600000 div 60000" by simp
  show "formatTimeRemaining ms =
      (if 1 \<le> ms div 3600000
         then show_nat (nat (ms div 3600000)) @ ''h '' @
              show_nat (nat (ms mod 3600000 div 60000)) @ ''m''
       else if 1 \<le> ms div 60000 then show_nat (nat (ms div 60000)) @ ''m''
       else ''<1m'')"
  proof (cases "1 \<le> ms div 3600000")
    case True
    then show ?thesis
      using sm m0 by (simp add: formatTimeRemaining_def Let_def show_int_nonneg)
  next
    case False
    then have hz: "ms div 3600000 = 0" using h0 by linarith
    then have lt: "ms < 3600000" using pos by (simp add: div_eq_0_iff)
    then have mm: "ms mod 3600000 = ms" using pos by simp
    show ?thesis
      using hz sm mm m0 by (simp add: formatTimeRemaining_def Let_def show_int_nonneg)
  qed
next
  show "CHR ''-'' \<notin> set (formatTimeRemaining ms)"
  proof (cases "0 < ms div 3600000")
    case True
    then have pos: "0 < ms" by (simp add: pos_imp_zdiv_pos_iff)
    have sm: "ms smod 3600000 = ms mod 3600000" using pos by (simp add: smod_of_nonneg)
    have m0: "0 \<le> ms mod 3600000 div 60000" by simp
    show ?thesis
      using True sm m0
      by (simp add: formatTimeRemaining_def Let_def show_int_nonneg show_nat_no_minus)
  next
    case False
    show ?thesis
    proof (cases "0 < ms smod 3600000 div 60000")
      case True
      then show ?thesis
        using False
        by (simp add: formatTimeRemaining_def Let_def show_int_nonneg show_nat_no_minus)
    next
      case no_minutes: False
      then show ?thesis using False by (simp add: formatTimeRemaining_def Let_def)
    qed
  qed
qed

theorem formatTimeRemaining_spec_witness:
  "formatTimeRemaining (- 5400000) = ''<1m'' \<and> formatTimeRemaining 0 = ''<1m'' \<and>
   formatTimeRemaining 5400000 = ''1h 30m'' \<and> formatTimeRemaining 125000 = ''2m'' \<and>
   formatTimeRemaining 59999 = ''<1m''"
  using formatTimeRemaining_spec [of "- 5400000"] formatTimeRemaining_spec [of 0]
    formatTimeRemaining_spec [of 5400000] formatTimeRemaining_spec [of 125000]
    formatTimeRemaining_spec [of 59999]
  by (simp add: show_nat.simps digit_char_def)

section \<open>Properties of the session manager\<close>

lemma logged_in_reached:
  "backupWorkInProgress (Some example_work) 5000
     (snd (createSession ''user_1'' ''a@x.com'' ''Ann'' ''session_1000_k3''
        ''Linux - en - Mozilla'' 1000 fresh_manager)) = logged_in"
  by (simp add: backupWorkInProgress_def createSession_def startSessionTimers_def
      saveSession_def clearTimers_def fresh_manager_def empty_storage_def logged_in_def
      example_session_def example_work_def SESSION_DURATION_def WARNING_TIME_def Let_def)

subsection \<open>Work-in-progress backup\<close>

text \<open>
  Claim C10. \<^verbatim>\<open>backupWorkInProgress\<close> called without a snapshot changes nothing. Expiry
  calls it that way, so the backup slot after \<^verbatim>\<open>expireSession\<close> is the slot before it;
  the same holds when the expiry is triggered by a read of a stale session.
\<close>

theorem backup_without_snapshot_frame:
  "backupWorkInProgress None now m = m \<and>
   work_backup_item (store (expireSession m)) = work_backup_item (store m) \<and>
   work_backup_item (store (snd (getCurrentSession now m))) = work_backup_item (store m)"
  by (simp add: backupWorkInProgress_def expireSession_def clearSession_def clearTimers_def
      getCurrentSession_def Let_def split: option.splits)

theorem backup_without_snapshot_frame_witness:
  "backupWorkInProgress None 90000000 logged_in = logged_in \<and>
   work_backup_item (store (expireSession logged_in)) = Some (Json example_work) \<and>
   session_item (store (expireSession logged_in)) = None \<and>
   work_backup_item (store (snd (getCurrentSession 90000000 logged_in))) =
     Some (Json example_work) \<and>
   session_item (store (snd (getCurrentSession 90000000 logged_in))) = None"
  using backup_without_snapshot_frame [of 90000000 logged_in]
  by (simp add: logged_in_def expireSession_def clearSession_def clearTimers_def
      getCurrentSession_def backupWorkInProgress_def falsy_def JSON_parse_def
      example_session_def Let_def)

text \<open>
  Claim C7. With a snapshot in the backup slot, \<^verbatim>\<open>restoreWorkInProgress\<close> returns it
  exactly when less than 24 hours have passed since its capture time, returns nothing
  otherwise, and leaves the manager and its storage as they were.
\<close>

theorem restoreWorkInProgress_spec:
  assumes "work_backup_item (store m) = Some (Json w)"
  shows "(fst (restoreWorkInProgress now m) = Some w \<longleftrightarrow>
            now - timestamp w < 24 * 60 * 60 * 1000) \<and>
         (\<not> now - timestamp w < 24 * 60 * 60 * 1000 \<longrightarrow>
            fst (restoreWorkInProgress now m) = None) \<and>
         snd (restoreWorkInProgress now m) = m"
  using assms by (simp add: restoreWorkInProgress_def falsy_def JSON_parse_def Let_def)

theorem restoreWorkInProgress_spec_witness:
  "work_backup_item (store logged_in) = Some (Json example_work) \<and>
   restoreWorkInProgress 86404999 logged_in = (Some example_work, logged_in) \<and>
   restoreWorkInProgress 86405000 logged_in = (None, logged_in)"
proof -
  have h: "work_backup_item (store logged_in) = Some (Json example_work)"
    by (simp add: logged_in_def)
  have t: "timestamp example_work = 5000" by (simp add: example_work_def)
  show ?thesis
    using h restoreWorkInProgress_spec [OF h, of 86404999]
      restoreWorkInProgress_spec [OF h, of 86405000]
    by (simp add: t prod_eq_iff)
qed

lemma restoreWorkInProgress_frame: "snd (restoreWorkInProgress now m) = m"
  by (simp add: restoreWorkInProgress_def Let_def split: option.splits)

subsection \<open>Session validity\<close>

lemma isSessionValid_iff:
  "fst (isSessionValid now m) \<longleftrightarrow>
     (\<exists>s. session_item (store m) = Some (Json s) \<and> now < expiresAt s)"
  by (auto simp: isSessionValid_def getCurrentSession_def falsy_def JSON_parse_def
      split: option.splits item.splits)

lemma stale_read_removes:
  "session_item (store m) = Some (Json s) \<Longrightarrow> expiresAt s < now \<Longrightarrow>
   fst (getCurrentSession now m) = None \<and>
   session_item (store (snd (getCurrentSession now m))) = None \<and>
   fst (isSessionValid now m) = False \<and>
   session_item (store (snd (isSessionValid now m))) = None"
  by (simp add: isSessionValid_def getCurrentSession_def falsy_def JSON_parse_def
      expireSession_def clearSession_def clearTimers_def backupWorkInProgress_def Let_def)

text \<open>
  Claim C1. \<^verbatim>\<open>isSessionValid\<close> is true exactly when a session record is stored and
  \<open>now < expiresAt\<close> (lemma \<open>isSessionValid_iff\<close>), and a read at \<open>now > expiresAt\<close>
  removes the record (lemma \<open>stale_read_removes\<close>). At the instant \<open>now = expiresAt\<close>
  the two comparisons of the code disagree: \<^verbatim>\<open>getCurrentSession\<close> tests
  \<^verbatim>\<open>Date.now() > session.expiresAt\<close> and still returns the session, while
  \<^verbatim>\<open>isSessionValid\<close> tests \<^verbatim>\<open>Date.now() < session.expiresAt\<close> and answers false.
  Neither call removes the record at that instant, the one at which the expiry timer of
  the manager is due.
\<close>

theorem session_kept_at_expiry_instant:
  "expiresAt example_session = 86401000 \<and>
   expiryTimer logged_in = Some 86401000 \<and>
   isSessionValid 86401000 logged_in = (False, logged_in) \<and>
   getCurrentSession 86401000 logged_in = (Some example_session, logged_in) \<and>
   session_item (store (snd (isSessionValid 86401000 logged_in))) =
     Some (Json example_session)"
  by (simp add: isSessionValid_def getCurrentSession_def falsy_def JSON_parse_def
      logged_in_def example_session_def)

subsection \<open>Activity tracking\<close>

lemma activity_within_window:
  "now - lastActivityTime m \<le> ACTIVITY_THRESHOLD \<Longrightarrow> handleUserActivity now m = m"
  by (simp add: handleUserActivity_def)

lemma activity_updates_session:
  assumes "now - lastActivityTime m > ACTIVITY_THRESHOLD"
    and "session_item (store m) = Some (Json s)"
    and "now \<le> expiresAt s"
    and "writable (store m)"
  shows "session_item (store (handleUserActivity now m)) =
           Some (Json (s\<lparr>lastActivity := now,
              expiresAt := (if expiresAt s - now < SESSION_DURATION div 2
                            then now + SESSION_DURATION else expiresAt s)\<rparr>)) \<and>
         warningTimer (handleUserActivity now m) = warningTimer m \<and>
         expiryTimer (handleUserActivity now m) = expiryTimer m"
  using assms
  by (simp add: handleUserActivity_def updateSessionActivity_def getCurrentSession_def
      saveSession_def falsy_def JSON_parse_def Let_def)

text \<open>
  Claim C2. An activity signal more than 30 seconds after the last recorded one writes
  \<open>lastActivity\<close> and, below half the session duration, the new \<open>expiresAt\<close>; a signal
  inside the window writes nothing (the two lemmas above). The timers are not re-armed:
  \<^verbatim>\<open>updateSessionActivity\<close> saves the session and returns, where \<^verbatim>\<open>extendSession\<close>
  goes on to call \<^verbatim>\<open>startSessionTimers\<close>. One hour before expiry, an activity signal
  moves the stored \<open>expiresAt\<close> to \<open>now + SESSION_DURATION\<close> and leaves both timers due at the
  old times; the callback of the expiry timer is \<^verbatim>\<open>expireSession\<close>, which removes the
  extended session when that timer fires.
\<close>

theorem activity_extension_keeps_old_timers:
  "handleUserActivity 82801000 logged_in =
     logged_in\<lparr>store := (store logged_in)\<lparr>session_item :=
                    Some (Json (example_session\<lparr>lastActivity := 82801000,
                                                 expiresAt := 169201000\<rparr>))\<rparr>,
               lastActivityTime := 82801000\<rparr> \<and>
   warningTimer (handleUserActivity 82801000 logged_in) = Some 86101000 \<and>
   expiryTimer (handleUserActivity 82801000 logged_in) = Some 86401000 \<and>
   warningTimer (snd (extendSession 82801000 logged_in)) = Some 168901000 \<and>
   expiryTimer (snd (extendSession 82801000 logged_in)) = Some 169201000 \<and>
   session_item (store (expireSession (handleUserActivity 82801000 logged_in))) = None"
  by (simp add: handleUserActivity_def updateSessionActivity_def getCurrentSession_def
      saveSession_def extendSession_def startSessionTimers_def clearTimers_def
      expireSession_def clearSession_def backupWorkInProgress_def
      falsy_def JSON_parse_def logged_in_def example_session_def
      ACTIVITY_THRESHOLD_def SESSION_DURATION_def WARNING_TIME_def Let_def)

subsection \<open>Reading missing or malformed values\<close>

text \<open>
  Claim C4, as stated, fails: a read of the user table, of the current-user pointer or of
  the work-in-progress backup that meets malformed text answers with the absent value and
  leaves the text under its key.
\<close>

theorem corrupt_keys_not_cleared:
  "unreadable (users_item corrupt_storage) \<and>
   fst (getAllUsers corrupt_storage) = [] \<and>
   users_item (snd (getAllUsers corrupt_storage)) \<noteq> None \<and>
   current_user_item (snd (getCurrentUser corrupt_storage)) \<noteq> None \<and>
   work_backup_item (store (snd (restoreWorkInProgress 5000 corrupt_manager))) \<noteq> None"
  by (simp add: unreadable_def getAllUsers_def getCurrentUser_def restoreWorkInProgress_def
      corrupt_storage_def corrupt_manager_def falsy_def JSON_parse_def)

text \<open>
  Claim C4, amended. For each of the four keys, a read that meets a missing or malformed
  value returns the absent value (the empty list or null); no read has an outcome other
  than a value. The reads of the user table, the current-user pointer and the backup
  leave the manager and its storage unchanged. The read of the session leaves them
  unchanged when the key is missing or holds the empty string, and on malformed text
  it calls \<^verbatim>\<open>clearSession\<close>, which removes the session key and no other key.
\<close>

theorem unreadable_reads:
  "(unreadable (users_item st) \<longrightarrow> getAllUsers st = ([], st)) \<and>
   (unreadable (current_user_item st) \<longrightarrow> getCurrentUser st = (None, st)) \<and>
   (unreadable (work_backup_item (store m)) \<longrightarrow> restoreWorkInProgress now m = (None, m)) \<and>
   (unreadable (session_item (store m)) \<longrightarrow> fst (getCurrentSession now m) = None) \<and>
   (session_item (store m) = None \<or> session_item (store m) = Some (Text []) \<longrightarrow>
      getCurrentSession now m = (None, m)) \<and>
   (\<forall>s. session_item (store m) = Some (Text s) \<and> s \<noteq> [] \<longrightarrow>
      getCurrentSession now m = (None, clearSession m) \<and>
      session_item (store (clearSession m)) = None \<and>
      users_item (store (clearSession m)) = users_item (store m) \<and>
      current_user_item (store (clearSession m)) = current_user_item (store m) \<and>
      work_backup_item (store (clearSession m)) = work_backup_item (store m))"
  by (auto simp: unreadable_def getAllUsers_def getCurrentUser_def restoreWorkInProgress_def
      getCurrentSession_def clearSession_def clearTimers_def falsy_def JSON_parse_def
      split: option.splits item.splits)

theorem unreadable_reads_witness:
  "unreadable (users_item corrupt_storage) \<and>
   unreadable (current_user_item corrupt_storage) \<and>
   unreadable (work_backup_item (store corrupt_manager)) \<and>
   unreadable (session_item (store corrupt_manager)) \<and>
   getAllUsers corrupt_storage = ([], corrupt_storage) \<and>
   getCurrentUser corrupt_storage = (None, corrupt_storage) \<and>
   restoreWorkInProgress 5000 corrupt_manager = (None, corrupt_manager) \<and>
   getCurrentSession 5000 corrupt_manager = (None, clearSession corrupt_manager) \<and>
   session_item (store (snd (getCurrentSession 5000 corrupt_manager))) = None \<and>
   unreadable (session_item (store fresh_manager)) \<and>
   getCurrentSession 5000 fresh_manager = (None, fresh_manager)"
  using unreadable_reads [of corrupt_storage corrupt_manager 5000]
    unreadable_reads [of empty_storage fresh_manager 5000]
  by (simp add: unreadable_def corrupt_storage_def corrupt_manager_def fresh_manager_def
      empty_storage_def)

section \<open>Properties of the conversation client\<close>

subsection \<open>One attempt, and the attempts of one request\<close>

lemma check_fetches [simp]: "fetches (snd (checkRateLimit Q now st)) = fetches st"
  by (simp add: checkRateLimit_def Let_def)

lemma check_within_window:
  "now - lastResetTime st < 3600000 \<Longrightarrow>
   checkRateLimit Q now st = (requestCount st < Q, st)"
  by (simp add: checkRateLimit_def Let_def)

lemma check_after_window:
  "3600000 \<le> now - lastResetTime st \<Longrightarrow>
   checkRateLimit Q now st = (0 < Q, st\<lparr>requestCount := 0, lastResetTime := now\<rparr>)"
  by (simp add: checkRateLimit_def Let_def)






lemma tavus_refused:
  assumes "\<not> fst (checkRateLimit TavusAPI_rateLimit (fst (env a)) st)"
  shows "TavusAPI_makeRequest env a st =
     (Inl (JsError ''Error'' ''Rate limit exceeded. Please try again later.''),
      snd (checkRateLimit TavusAPI_rateLimit (fst (env a)) st))"
proof (cases "checkRateLimit TavusAPI_rateLimit (fst (env a)) st")
  case (Pair ok st1)
  with assms show ?thesis by (simp add: TavusAPI_makeRequest.simps [of env a st])
qed

lemma tavus_admitted:
  assumes "fst (checkRateLimit TavusAPI_rateLimit (fst (env a)) st)"
  shows "TavusAPI_makeRequest env a st =
     (let st1 = snd (checkRateLimit TavusAPI_rateLimit (fst (env a)) st);
          st2 = st1\<lparr>requestCount := requestCount st1 + 1, fetches := fetches st1 + 1\<rparr>
      in case tavus_attempt a (snd (env a)) of
           Return responseData \<Rightarrow> (Inr responseData, st2)
         | Throw e \<Rightarrow> (Inl e, st2)
         | Retry \<Rightarrow> TavusAPI_makeRequest env (a + 1) st2)"
proof (cases "checkRateLimit TavusAPI_rateLimit (fst (env a)) st")
  case (Pair ok st1)
  with assms show ?thesis by (simp add: TavusAPI_makeRequest.simps [of env a st])
qed








lemma tavus_window:
  assumes "\<forall>k. fst (env k) - lastResetTime st < 3600000"
  shows "lastResetTime (snd (TavusAPI_makeRequest env a st)) = lastResetTime st \<and>
         requestCount (snd (TavusAPI_makeRequest env a st)) - requestCount st =
           int (fetches (snd (TavusAPI_makeRequest env a st))) - int (fetches st) \<and>
         fetches st \<le> fetches (snd (TavusAPI_makeRequest env a st)) \<and>
         (requestCount st \<le> TavusAPI_rateLimit \<longrightarrow>
            requestCount (snd (TavusAPI_makeRequest env a st)) \<le> TavusAPI_rateLimit)"
  using assms
proof (induction env a st rule: TavusAPI_makeRequest.induct)
  case (1 env a st)
  have w: "fst (env a) - lastResetTime st < 3600000" using "1.prems" by simp
  have chk: "checkRateLimit TavusAPI_rateLimit (fst (env a)) st =
               (requestCount st < TavusAPI_rateLimit, st)"
    using w by (rule check_within_window)
  let ?st2 = "st\<lparr>requestCount := requestCount st + 1, fetches := fetches st + 1\<rparr>"
  show ?case
  proof (cases "requestCount st < TavusAPI_rateLimit")
    case False
    then show ?thesis by (simp add: tavus_refused chk)
  next
    case True
    show ?thesis
    proof (cases "tavus_attempt a (snd (env a))")
      case (Return d)
      then show ?thesis using True by (simp add: tavus_admitted chk Let_def)
    next
      case (Throw e)
      then show ?thesis using True by (simp add: tavus_admitted chk Let_def)
    next
      case Retry
      have eq: "TavusAPI_makeRequest env a st = TavusAPI_makeRequest env (a + 1) ?st2"
        using True Retry by (simp add: tavus_admitted chk Let_def)
      have pc: "(True, st) = checkRateLimit TavusAPI_rateLimit (fst (env a)) st"
        using True by (simp add: chk)
      have w2: "\<forall>k. fst (env k) - lastResetTime ?st2 < 3600000" using "1.prems" by simp
      note ih = "1.IH" [OF pc refl refl Retry w2]
      show ?thesis using ih True by (simp add: eq)
    qed
  qed
qed

subsection \<open>Polling the status of a conversation\<close>






subsection \<open>Validation of a conversation request\<close>

lemma trim_Nil: "trim [] = []"
  by (simp add: trim_def)

lemma validate_refines: "validateConversationRequest request = first_violation request"
  by (auto simp: validateConversationRequest_def first_violation_def conversation_rules_def
      blank_def trim_Nil split: option.splits)

text \<open>
  Claim C6. The validation of \<^verbatim>\<open>createConversation\<close> returns the message of the first
  violated rule in the order replica id, name, greeting, greeting length, context length,
  and that message alone: the code computes \<open>first_violation\<close>. When a rule is violated,
  \<^verbatim>\<open>createConversation\<close> returns that message as its error and changes nothing (no
  request is sent). A request without a replica id gets the replica-id message whatever
  else is missing in it.
\<close>

theorem createConversation_first_violation:
  "validateConversationRequest request = first_violation request \<and>
   (\<forall>err. first_violation request = Some err \<longrightarrow>
      createConversation env request st = (conversation_failed err, st)) \<and>
   (blank (replica_id request) \<longrightarrow>
      createConversation env request st =
        (conversation_failed ''Replica ID is required for conversation creation'', st))"
proof -
  have r: "validateConversationRequest request = first_violation request"
    by (rule validate_refines)
  have b: "blank (replica_id request) \<Longrightarrow>
      first_violation request = Some ''Replica ID is required for conversation creation''"
    by (simp add: first_violation_def conversation_rules_def)
  show ?thesis using r b by (auto simp: createConversation_def)
qed

theorem createConversation_first_violation_witness:
  "blank (replica_id no_ids_request) \<and> blank (conversation_name no_ids_request) \<and>
   createConversation failing_once no_ids_request tavus_start =
     (conversation_failed ''Replica ID is required for conversation creation'', tavus_start) \<and>
   first_violation no_name_request = Some ''Conversation name is required'' \<and>
   blank (custom_greeting no_name_request) \<and>
   createConversation failing_once no_name_request tavus_start =
     (conversation_failed ''Conversation name is required'', tavus_start)"
proof -
  have b1: "blank (replica_id no_ids_request)"
    by (simp add: no_ids_request_def blank_def trim_Nil)
  have b2: "blank (conversation_name no_ids_request)"
    by (simp add: no_ids_request_def blank_def trim_def is_space_def)
  have v: "first_violation no_name_request = Some ''Conversation name is required''"
    by (simp add: first_violation_def conversation_rules_def no_name_request_def blank_def
        trim_def is_space_def)
  have b3: "blank (custom_greeting no_name_request)"
    by (simp add: no_name_request_def blank_def trim_Nil)
  note T1 = createConversation_first_violation [of no_ids_request failing_once tavus_start]
  note T2 = createConversation_first_violation [of no_name_request failing_once tavus_start]
  from T1 b1 have c1: "createConversation failing_once no_ids_request tavus_start =
     (conversation_failed ''Replica ID is required for conversation creation'', tavus_start)"
    by blast
  from T2 v have c2: "createConversation failing_once no_name_request tavus_start =
     (conversation_failed ''Conversation name is required'', tavus_start)"
    by blast
  from b1 b2 c1 v b3 c2 show ?thesis by blast
qed

section \<open>Properties of the translation client\<close>

lemma lingo_attempt_Retry: "lingo_attempt a out = Retry \<Longrightarrow> a \<le> maxRetries"
  by (auto simp: lingo_attempt_def lingo_try_def lingo_catch_def
      split: outcome.splits body.splits if_splits step.splits thrown.splits)

lemma lingo_attempt_no_Throw: "lingo_attempt a out \<noteq> Throw e"
  by (auto simp: lingo_attempt_def lingo_try_def lingo_catch_def
      split: outcome.splits body.splits if_splits step.splits thrown.splits)

lemma lingo_refused:
  assumes "\<not> fst (checkRateLimit LingoAPI_rateLimit (fst (env a)) st)"
  shows "LingoAPI_makeRequest env a st =
     (Inl (JsError ''Error'' ''Rate limit exceeded. Please try again later.''),
      snd (checkRateLimit LingoAPI_rateLimit (fst (env a)) st))"
proof (cases "checkRateLimit LingoAPI_rateLimit (fst (env a)) st")
  case (Pair ok st1)
  with assms show ?thesis by (simp add: LingoAPI_makeRequest.simps [of env a st])
qed

lemma lingo_admitted:
  assumes "fst (checkRateLimit LingoAPI_rateLimit (fst (env a)) st)"
  shows "LingoAPI_makeRequest env a st =
     (let st1 = snd (checkRateLimit LingoAPI_rateLimit (fst (env a)) st);
          st2 = st1\<lparr>requestCount := requestCount st1 + 1, fetches := fetches st1 + 1\<rparr>
      in case lingo_attempt a (snd (env a)) of
           Return r \<Rightarrow> (Inr r, st2)
         | Throw e \<Rightarrow> (Inl e, st2)
         | Retry \<Rightarrow> LingoAPI_makeRequest env (a + 1) st2)"
proof (cases "checkRateLimit LingoAPI_rateLimit (fst (env a)) st")
  case (Pair ok st1)
  with assms show ?thesis by (simp add: LingoAPI_makeRequest.simps [of env a st])
qed

lemma lingo_window:
  assumes "\<forall>k. fst (env k) - lastResetTime st < 3600000"
  shows "lastResetTime (snd (LingoAPI_makeRequest env a st)) = lastResetTime st \<and>
         requestCount (snd (LingoAPI_makeRequest env a st)) - requestCount st =
           int (fetches (snd (LingoAPI_makeRequest env a st))) - int (fetches st) \<and>
         fetches st \<le> fetches (snd (LingoAPI_makeRequest env a st)) \<and>
         (requestCount st \<le> LingoAPI_rateLimit \<longrightarrow>
            requestCount (snd (LingoAPI_makeRequest env a st)) \<le> LingoAPI_rateLimit)"
  using assms
proof (induction env a st rule: LingoAPI_makeRequest.induct)
  case (1 env a st)
  have w: "fst (env a) - lastResetTime st < 3600000" using "1.prems" by simp
  have chk: "checkRateLimit LingoAPI_rateLimit (fst (env a)) st =
               (requestCount st < LingoAPI_rateLimit, st)"
    using w by (rule check_within_window)
  let ?st2 = "st\<lparr>requestCount := requestCount st + 1, fetches := fetches st + 1\<rparr>"
  show ?case
  proof (cases "requestCount st < LingoAPI_rateLimit")
    case False
    then show ?thesis by (simp add: lingo_refused chk)
  next
    case True
    show ?thesis
    proof (cases "lingo_attempt a (snd (env a))")
      case (Return d)
      then show ?thesis using True by (simp add: lingo_admitted chk Let_def)
    next
      case (Throw e)
      then show ?thesis using True by (simp add: lingo_admitted chk Let_def)
    next
      case Retry
      have eq: "LingoAPI_makeRequest env a st = LingoAPI_makeRequest env (a + 1) ?st2"
        using True Retry by (simp add: lingo_admitted chk Let_def)
      have pc: "(True, st) = checkRateLimit LingoAPI_rateLimit (fst (env a)) st"
        using True by (simp add: chk)
      have w2: "\<forall>k. fst (env k) - lastResetTime ?st2 < 3600000" using "1.prems" by simp
      note ih = "1.IH" [OF pc refl refl Retry w2]
      show ?thesis using ih True by (simp add: eq)
    qed
  qed
qed

text \<open>
  Claim C8. A translation request that passes validation and names the target language
  as its source language is answered at once: success, the text as it came, the source
  language as the detected one. The client is returned as it was, so no request was
  sent and the request counter of the rate limiter did not move.
\<close>

theorem translateText_same_language:
  assumes "validateRequest request = None"
    and "source_language request = Some (target_language request)"
  shows "translateText env request st =
           (\<lparr>tr_success = True, tr_translated_text = Some (req_text request),
             tr_error = None,
             tr_detected_language = Some (target_language request)\<rparr>, st)"
proof -
  have "target_language request \<noteq> []"
    using assms(1) by (auto simp: validateRequest_def split: if_splits)
  then show ?thesis using assms by (simp add: translateText_def)
qed

theorem translateText_same_language_witness:
  "validateRequest hello_request = None \<and>
   source_language hello_request = Some (target_language hello_request) \<and>
   translateText lingo_timeout hello_request lingo_start =
     (\<lparr>tr_success = True, tr_translated_text = Some ''Hello'', tr_error = None,
       tr_detected_language = Some ''en''\<rparr>, lingo_start) \<and>
   fetches lingo_start = 0 \<and> requestCount lingo_start = 0"
proof -
  have v: "validateRequest hello_request = None"
    by (simp add: validateRequest_def hello_request_def getLanguageByCode_def
        supportedLanguages_def trim_def is_space_def)
  have s: "source_language hello_request = Some (target_language hello_request)"
    by (simp add: hello_request_def)
  show ?thesis
    using translateText_same_language [OF v s, of lingo_timeout lingo_start] v s
    by (simp add: hello_request_def lingo_start_def)
qed

section \<open>The hourly quota of both clients\<close>

lemma tavus_fetches_mono: "fetches st \<le> fetches (snd (TavusAPI_makeRequest env a st))"
proof (induction env a st rule: TavusAPI_makeRequest.induct)
  case (1 env a st)
  let ?st1 = "snd (checkRateLimit TavusAPI_rateLimit (fst (env a)) st)"
  let ?st2 = "?st1\<lparr>requestCount := requestCount ?st1 + 1, fetches := fetches ?st1 + 1\<rparr>"
  show ?case
  proof (cases "fst (checkRateLimit TavusAPI_rateLimit (fst (env a)) st)")
    case False
    then show ?thesis by (simp add: tavus_refused)
  next
    case True
    have pc: "(True, ?st1) = checkRateLimit TavusAPI_rateLimit (fst (env a)) st"
      using True by (simp add: prod_eq_iff)
    show ?thesis
    proof (cases "tavus_attempt a (snd (env a))")
      case Retry
      have "fetches ?st2 \<le> fetches (snd (TavusAPI_makeRequest env (a + 1) ?st2))"
        by (rule "1.IH" [OF pc refl refl Retry])
      then show ?thesis using True Retry by (simp add: tavus_admitted Let_def)
    qed (use True in \<open>simp_all add: tavus_admitted Let_def\<close>)
  qed
qed

lemma tavus_admitted_fetches:
  assumes "fst (checkRateLimit TavusAPI_rateLimit (fst (env a)) st)"
  shows "fetches st < fetches (snd (TavusAPI_makeRequest env a st))"
proof -
  let ?st1 = "snd (checkRateLimit TavusAPI_rateLimit (fst (env a)) st)"
  let ?st2 = "?st1\<lparr>requestCount := requestCount ?st1 + 1, fetches := fetches ?st1 + 1\<rparr>"
  have "fetches ?st2 \<le> fetches (snd (TavusAPI_makeRequest env (a + 1) ?st2))"
    by (rule tavus_fetches_mono)
  then show ?thesis
    using assms
    by (cases "tavus_attempt a (snd (env a))") (simp_all add: tavus_admitted Let_def)
qed

lemma lingo_fetches_mono: "fetches st \<le> fetches (snd (LingoAPI_makeRequest env a st))"
proof (induction env a st rule: LingoAPI_makeRequest.induct)
  case (1 env a st)
  let ?st1 = "snd (checkRateLimit LingoAPI_rateLimit (fst (env a)) st)"
  let ?st2 = "?st1\<lparr>requestCount := requestCount ?st1 + 1, fetches := fetches ?st1 + 1\<rparr>"
  show ?case
  proof (cases "fst (checkRateLimit LingoAPI_rateLimit (fst (env a)) st)")
    case False
    then show ?thesis by (simp add: lingo_refused)
  next
    case True
    have pc: "(True, ?st1) = checkRateLimit LingoAPI_rateLimit (fst (env a)) st"
      using True by (simp add: prod_eq_iff)
    show ?thesis
    proof (cases "lingo_attempt a (snd (env a))")
      case Retry
      have "fetches ?st2 \<le> fetches (snd (LingoAPI_makeRequest env (a + 1) ?st2))"
        by (rule "1.IH" [OF pc refl refl Retry])
      then show ?thesis using True Retry by (simp add: lingo_admitted Let_def)
    qed (use True in \<open>simp_all add: lingo_admitted Let_def\<close>)
  qed
qed

lemma lingo_admitted_fetches:
  assumes "fst (checkRateLimit LingoAPI_rateLimit (fst (env a)) st)"
  shows "fetches st < fetches (snd (LingoAPI_makeRequest env a st))"
proof -
  let ?st1 = "snd (checkRateLimit LingoAPI_rateLimit (fst (env a)) st)"
  let ?st2 = "?st1\<lparr>requestCount := requestCount ?st1 + 1, fetches := fetches ?st1 + 1\<rparr>"
  have "fetches ?st2 \<le> fetches (snd (LingoAPI_makeRequest env (a + 1) ?st2))"
    by (rule lingo_fetches_mono)
  then show ?thesis
    using assms
    by (cases "lingo_attempt a (snd (env a))") (simp_all add: lingo_admitted Let_def)
qed

text \<open>The four facts of the quota, for the conversation client.\<close>

lemma tavus_quota:
  "(TavusAPI_rateLimit \<le> requestCount st \<and> fst (env a) - lastResetTime st < 3600000 \<longrightarrow>
      TavusAPI_makeRequest env a st =
        (Inl (JsError ''Error'' ''Rate limit exceeded. Please try again later.''), st)) \<and>
   (requestCount st < TavusAPI_rateLimit \<and> fst (env a) - lastResetTime st < 3600000 \<longrightarrow>
      fetches st < fetches (snd (TavusAPI_makeRequest env a st))) \<and>
   ((\<forall>k. fst (env k) - lastResetTime st < 3600000) \<longrightarrow>
      requestCount (snd (TavusAPI_makeRequest env a st)) - requestCount st =
        int (fetches (snd (TavusAPI_makeRequest env a st))) - int (fetches st) \<and>
      (requestCount st \<le> TavusAPI_rateLimit \<longrightarrow>
         requestCount (snd (TavusAPI_makeRequest env a st)) \<le> TavusAPI_rateLimit)) \<and>
   (3600000 \<le> fst (env a) - lastResetTime st \<longrightarrow>
      checkRateLimit TavusAPI_rateLimit (fst (env a)) st =
        (True, st\<lparr>requestCount := 0, lastResetTime := fst (env a)\<rparr>) \<and>
      fetches st < fetches (snd (TavusAPI_makeRequest env a st)))"
proof (intro conjI impI)
  assume "TavusAPI_rateLimit \<le> requestCount st \<and> fst (env a) - lastResetTime st < 3600000"
  then show "TavusAPI_makeRequest env a st =
        (Inl (JsError ''Error'' ''Rate limit exceeded. Please try again later.''), st)"
    by (simp add: tavus_refused check_within_window)
next
  assume "requestCount st < TavusAPI_rateLimit \<and> fst (env a) - lastResetTime st < 3600000"
  then show "fetches st < fetches (snd (TavusAPI_makeRequest env a st))"
    by (simp add: tavus_admitted_fetches check_within_window)
next
  assume "\<forall>k. fst (env k) - lastResetTime st < 3600000"
  then show "requestCount (snd (TavusAPI_makeRequest env a st)) - requestCount st =
        int (fetches (snd (TavusAPI_makeRequest env a st))) - int (fetches st)"
    using tavus_window [of env st a] by blast
next
  assume "\<forall>k. fst (env k) - lastResetTime st < 3600000"
    and "requestCount st \<le> TavusAPI_rateLimit"
  then show "requestCount (snd (TavusAPI_makeRequest env a st)) \<le> TavusAPI_rateLimit"
    using tavus_window [of env st a] by blast
next
  assume "3600000 \<le> fst (env a) - lastResetTime st"
  then show "checkRateLimit TavusAPI_rateLimit (fst (env a)) st =
        (True, st\<lparr>requestCount := 0, lastResetTime := fst (env a)\<rparr>)"
    by (simp add: check_after_window TavusAPI_rateLimit_def)
next
  assume "3600000 \<le> fst (env a) - lastResetTime st"
  then show "fetches st < fetches (snd (TavusAPI_makeRequest env a st))"
    by (simp add: tavus_admitted_fetches check_after_window TavusAPI_rateLimit_def)
qed

text \<open>The same four facts for the translation client.\<close>

lemma lingo_quota:
  "(LingoAPI_rateLimit \<le> requestCount st \<and> fst (env a) - lastResetTime st < 3600000 \<longrightarrow>
      LingoAPI_makeRequest env a st =
        (Inl (JsError ''Error'' ''Rate limit exceeded. Please try again later.''), st)) \<and>
   (requestCount st < LingoAPI_rateLimit \<and> fst (env a) - lastResetTime st < 3600000 \<longrightarrow>
      fetches st < fetches (snd (LingoAPI_makeRequest env a st))) \<and>
   ((\<forall>k. fst (env k) - lastResetTime st < 3600000) \<longrightarrow>
      requestCount (snd (LingoAPI_makeRequest env a st)) - requestCount st =
        int (fetches (snd (LingoAPI_makeRequest env a st))) - int (fetches st) \<and>
      (requestCount st \<le> LingoAPI_rateLimit \<longrightarrow>
         requestCount (snd (LingoAPI_makeRequest env a st)) \<le> LingoAPI_rateLimit)) \<and>
   (3600000 \<le> fst (env a) - lastResetTime st \<longrightarrow>
      checkRateLimit LingoAPI_rateLimit (fst (env a)) st =
        (True, st\<lparr>requestCount := 0, lastResetTime := fst (env a)\<rparr>) \<and>
      fetches st < fetches (snd (LingoAPI_makeRequest env a st)))"
proof (intro conjI impI)
  assume "LingoAPI_rateLimit \<le> requestCount st \<and> fst (env a) - lastResetTime st < 3600000"
  then show "LingoAPI_makeRequest env a st =
        (Inl (JsError ''Error'' ''Rate limit exceeded. Please try again later.''), st)"
    by (simp add: lingo_refused check_within_window)
next
  assume "requestCount st < LingoAPI_rateLimit \<and> fst (env a) - lastResetTime st < 3600000"
  then show "fetches st < fetches (snd (LingoAPI_makeRequest env a st))"
    by (simp add: lingo_admitted_fetches check_within_window)
next
  assume "\<forall>k. fst (env k) - lastResetTime st < 3600000"
  then show "requestCount (snd (LingoAPI_makeRequest env a st)) - requestCount st =
        int (fetches (snd (LingoAPI_makeRequest env a st))) - int (fetches st)"
    using lingo_window [of env st a] by blast
next
  assume "\<forall>k. fst (env k) - lastResetTime st < 3600000"
    and "requestCount st \<le> LingoAPI_rateLimit"
  then show "requestCount (snd (LingoAPI_makeRequest env a st)) \<le> LingoAPI_rateLimit"
    using lingo_window [of env st a] by blast
next
  assume "3600000 \<le> fst (env a) - lastResetTime st"
  then show "checkRateLimit LingoAPI_rateLimit (fst (env a)) st =
        (True, st\<lparr>requestCount := 0, lastResetTime := fst (env a)\<rparr>)"
    by (simp add: check_after_window LingoAPI_rateLimit_def)
next
  assume "3600000 \<le> fst (env a) - lastResetTime st"
  then show "fetches st < fetches (snd (LingoAPI_makeRequest env a st))"
    by (simp add: lingo_admitted_fetches check_after_window LingoAPI_rateLimit_def)
qed

text \<open>
  Claim C5, as stated, fails at the instant at which exactly one hour has passed since
  the last reset. The claim resets the counter once more than one hour has elapsed, so
  that instant still belongs to the hour of the last reset and an attempt beyond the
  quota should fail there. The code tests \<^verbatim>\<open>hoursPassed >= 1\<close>: with the counter at the
  quota and \<open>now - lastResetTime = 3600000\<close>, the check resets the counter and the request
  is sent, in both clients.
\<close>

theorem quota_resets_at_exact_hour:
  "requestCount tavus_spent = 50 \<and>
   fst (next_hour 1) - lastResetTime tavus_spent = 3600000 \<and>
   getConversationStatus next_hour ''c1'' tavus_spent =
     (Some \<lparr>cs_conversation_id = ''c1'', cs_status = Some ''active'',
            cs_conversation_url = None, cs_participants = 0, cs_duration = 0,
            cs_error = None, cs_expires_at = None\<rparr>,
      tavus_spent\<lparr>requestCount := 1, lastResetTime := 3600000, fetches := 51\<rparr>) \<and>
   requestCount lingo_spent = 100 \<and>
   fst (lingo_next_hour 1) - lastResetTime lingo_spent = 3600000 \<and>
   translateText lingo_next_hour hello_to_spanish lingo_spent =
     (\<lparr>tr_success = True, tr_translated_text = Some ''Hola'', tr_error = None,
       tr_detected_language = Some ''en''\<rparr>,
      lingo_spent\<lparr>requestCount := 1, lastResetTime := 3600000, fetches := 101\<rparr>)"
  by code_simp

text \<open>
  Claim C5, amended. The quota is 50 requests an hour for the conversation client and 100
  for the translation client. Each admitted attempt adds one to the request counter and
  sends one request, and while less than an hour has passed since the last reset the
  counter is not reset; so the counter is the number of attempts admitted since the last
  reset. With the counter at the quota, an attempt made less than one hour after the last
  reset fails before any request is sent and leaves the client as it was:
  \<^verbatim>\<open>makeRequest\<close> throws, the status poll returns null, and \<^verbatim>\<open>translateText\<close> returns a
  failure. Below the quota an attempt is admitted. Once one hour or more has passed since
  the last reset (the instant of exactly one hour included), the check sets the counter
  to zero, restarts the hour at \<open>now\<close>, and admits the attempt.
\<close>

theorem hourly_quota:
  fixes st :: tavus and lst :: lingo
  shows
  "TavusAPI_rateLimit = 50 \<and> LingoAPI_rateLimit = 100 \<and>
   (50 \<le> requestCount st \<and> fst (env a) - lastResetTime st < 3600000 \<longrightarrow>
      TavusAPI_makeRequest env a st =
        (Inl (JsError ''Error'' ''Rate limit exceeded. Please try again later.''), st)) \<and>
   (50 \<le> requestCount st \<and> fst (env 1) - lastResetTime st < 3600000 \<longrightarrow>
      getConversationStatus env cid st = (None, st)) \<and>
   (100 \<le> requestCount lst \<and> fst (lenv a) - lastResetTime lst < 3600000 \<longrightarrow>
      LingoAPI_makeRequest lenv a lst =
        (Inl (JsError ''Error'' ''Rate limit exceeded. Please try again later.''), lst)) \<and>
   (100 \<le> requestCount lst \<and> fst (lenv 1) - lastResetTime lst < 3600000 \<and>
    validateRequest request = None \<and>
    source_language request \<noteq> Some (target_language request) \<longrightarrow>
      translateText lenv request lst =
        (translation_failed
           ''An unexpected error occurred during translation. Please try again.'', lst)) \<and>
   (requestCount st < 50 \<and> fst (env a) - lastResetTime st < 3600000 \<longrightarrow>
      fetches st < fetches (snd (TavusAPI_makeRequest env a st))) \<and>
   (requestCount lst < 100 \<and> fst (lenv a) - lastResetTime lst < 3600000 \<longrightarrow>
      fetches lst < fetches (snd (LingoAPI_makeRequest lenv a lst))) \<and>
   ((\<forall>k. fst (env k) - lastResetTime st < 3600000) \<longrightarrow>
      requestCount (snd (TavusAPI_makeRequest env a st)) - requestCount st =
        int (fetches (snd (TavusAPI_makeRequest env a st))) - int (fetches st) \<and>
      (requestCount st \<le> 50 \<longrightarrow>
         requestCount (snd (TavusAPI_makeRequest env a st)) \<le> 50)) \<and>
   ((\<forall>k. fst (lenv k) - lastResetTime lst < 3600000) \<longrightarrow>
      requestCount (snd (LingoAPI_makeRequest lenv a lst)) - requestCount lst =
        int (fetches (snd (LingoAPI_makeRequest lenv a lst))) - int (fetches lst) \<and>
      (requestCount lst \<le> 100 \<longrightarrow>
         requestCount (snd (LingoAPI_makeRequest lenv a lst)) \<le> 100)) \<and>
   (3600000 \<le> fst (env a) - lastResetTime st \<longrightarrow>
      checkRateLimit TavusAPI_rateLimit (fst (env a)) st =
        (True, st\<lparr>requestCount := 0, lastResetTime := fst (env a)\<rparr>) \<and>
      fetches st < fetches (snd (TavusAPI_makeRequest env a st))) \<and>
   (3600000 \<le> fst (lenv a) - lastResetTime lst \<longrightarrow>
      checkRateLimit LingoAPI_rateLimit (fst (lenv a)) lst =
        (True, lst\<lparr>requestCount := 0, lastResetTime := fst (lenv a)\<rparr>) \<and>
      fetches lst < fetches (snd (LingoAPI_makeRequest lenv a lst)))"
proof -
  have qt: "TavusAPI_rateLimit = 50" by (simp add: TavusAPI_rateLimit_def)
  have ql: "LingoAPI_rateLimit = 100" by (simp add: LingoAPI_rateLimit_def)
  note T = tavus_quota [of st env a, unfolded qt]
  note L = lingo_quota [of lst lenv a, unfolded ql]
  have poll: "50 \<le> requestCount st \<and> fst (env 1) - lastResetTime st < 3600000 \<longrightarrow>
      getConversationStatus env cid st = (None, st)"
    using tavus_quota [of st env 1, unfolded qt] by (simp add: getConversationStatus_def)
  have tr: "100 \<le> requestCount lst \<and> fst (lenv 1) - lastResetTime lst < 3600000 \<and>
    validateRequest request = None \<and>
    source_language request \<noteq> Some (target_language request) \<longrightarrow>
      translateText lenv request lst =
        (translation_failed
           ''An unexpected error occurred during translation. Please try again.'', lst)"
    using lingo_quota [of lst lenv 1, unfolded ql]
    by (auto simp: translateText_def split: option.splits)
  from qt ql T L poll tr show ?thesis unfolding qt ql by blast
qed

theorem hourly_quota_witness:
  "requestCount tavus_spent = 50 \<and> lastResetTime tavus_spent = 0 \<and>
   fetches tavus_spent = 50 \<and>
   TavusAPI_makeRequest same_hour 1 tavus_spent =
     (Inl (JsError ''Error'' ''Rate limit exceeded. Please try again later.''), tavus_spent) \<and>
   getConversationStatus same_hour ''c1'' tavus_spent = (None, tavus_spent) \<and>
   checkRateLimit TavusAPI_rateLimit 3600000 tavus_spent =
     (True, tavus_spent\<lparr>requestCount := 0, lastResetTime := 3600000\<rparr>) \<and>
   50 < fetches (snd (TavusAPI_makeRequest next_hour 1 tavus_spent)) \<and>
   fetches tavus_start < fetches (snd (TavusAPI_makeRequest same_hour 1 tavus_start)) \<and>
   requestCount lingo_spent = 100 \<and> fetches lingo_spent = 100 \<and>
   translateText lingo_same_hour hello_to_spanish lingo_spent =
     (translation_failed
        ''An unexpected error occurred during translation. Please try again.'', lingo_spent) \<and>
   checkRateLimit LingoAPI_rateLimit 3600000 lingo_spent =
     (True, lingo_spent\<lparr>requestCount := 0, lastResetTime := 3600000\<rparr>) \<and>
   100 < fetches (snd (LingoAPI_makeRequest lingo_next_hour 1 lingo_spent))"
proof -
  have s1: "requestCount tavus_spent = 50" "lastResetTime tavus_spent = 0"
      "fetches tavus_spent = 50"
    by (simp_all add: tavus_spent_def tavus_start_def)
  have s0: "requestCount tavus_start = 0" "lastResetTime tavus_start = 0"
    by (simp_all add: tavus_start_def)
  have s2: "requestCount lingo_spent = 100" "lastResetTime lingo_spent = 0"
      "fetches lingo_spent = 100"
    by (simp_all add: lingo_spent_def lingo_start_def)
  have t1: "fst (same_hour k) = 3599999" for k by (simp add: same_hour_def)
  have t2: "fst (lingo_same_hour k) = 3599999" for k by (simp add: lingo_same_hour_def)
  have t3: "fst (next_hour k) = 3600000" for k by (simp add: next_hour_def)
  have t4: "fst (lingo_next_hour k) = 3600000" for k by (simp add: lingo_next_hour_def)
  have v: "validateRequest hello_to_spanish = None"
    by (simp add: validateRequest_def hello_to_spanish_def getLanguageByCode_def
        supportedLanguages_def trim_def is_space_def)
  have d: "source_language hello_to_spanish \<noteq> Some (target_language hello_to_spanish)"
    by (simp add: hello_to_spanish_def)
  note Q = hourly_quota [of tavus_spent same_hour 1 "''c1''" lingo_spent lingo_same_hour
      hello_to_spanish]
  note N = hourly_quota [of tavus_spent next_hour 1 "''c1''" lingo_spent lingo_next_hour
      hello_to_spanish]
  note B = hourly_quota [of tavus_start same_hour 1 "''c1''" lingo_spent lingo_same_hour
      hello_to_spanish]
  from Q have r1: "TavusAPI_makeRequest same_hour 1 tavus_spent =
     (Inl (JsError ''Error'' ''Rate limit exceeded. Please try again later.''), tavus_spent)"
    by (simp add: s1 t1)
  from Q have r2: "getConversationStatus same_hour ''c1'' tavus_spent = (None, tavus_spent)"
    by (simp add: s1 t1)
  from Q v d have r3: "translateText lingo_same_hour hello_to_spanish lingo_spent =
     (translation_failed
        ''An unexpected error occurred during translation. Please try again.'', lingo_spent)"
    by (simp add: s2 t2)
  from N have r4: "checkRateLimit TavusAPI_rateLimit 3600000 tavus_spent =
     (True, tavus_spent\<lparr>requestCount := 0, lastResetTime := 3600000\<rparr>)"
    by (simp add: s1 t3)
  from N have r5: "50 < fetches (snd (TavusAPI_makeRequest next_hour 1 tavus_spent))"
    by (simp add: s1 t3)
  from N have r6: "checkRateLimit LingoAPI_rateLimit 3600000 lingo_spent =
     (True, lingo_spent\<lparr>requestCount := 0, lastResetTime := 3600000\<rparr>)"
    by (simp add: s2 t4)
  from N have r7: "100 < fetches (snd (LingoAPI_makeRequest lingo_next_hour 1 lingo_spent))"
    by (simp add: s2 t4)
  from B have r8: "fetches tavus_start < fetches (snd (TavusAPI_makeRequest same_hour 1 tavus_start))"
    by (simp add: s0 t1)
  from s1 s2 r1 r2 r3 r4 r5 r6 r7 r8 show ?thesis by blast
qed

end
